theory Spec2Isabelle
  imports Complex_Main
begin

section \<open>Python strings\<close>

text \<open>
  A Python \<open>str\<close> is modelled as a \<open>string\<close>, one \<open>char\<close> per character, so the
  characters of the model are the code points 0 to 255. \<open>is_space\<close> is the set of
  characters in that range for which \<open>str.isspace\<close> holds; it is the set that
  \<open>str.strip()\<close> removes and that the regular expression class \<open>\s\<close> matches.
\<close>

definition is_space :: "char \<Rightarrow> bool" where
  "is_space c = (c \<in> set [CHR 0x09, CHR 0x0A, CHR 0x0B, CHR 0x0C, CHR 0x0D, CHR 0x1C,
     CHR 0x1D, CHR 0x1E, CHR 0x1F, CHR 0x20, CHR 0x85, CHR 0xA0])"

text \<open>\<open>s.strip()\<close>\<close>

definition strip :: "string \<Rightarrow> string" where
  "strip s = rev (dropWhile is_space (rev (dropWhile is_space s)))"

text \<open>\<open>c.lower()\<close> on the code points 0 to 255: the ASCII capitals and the Latin-1 capitals
  (0xC0 to 0xDE without the multiplication sign 0xD7) move up by 32.\<close>

definition lower_char :: "char \<Rightarrow> char" where
  "lower_char c =
     (let n = (of_char c :: nat)
      in if (65 \<le> n \<and> n \<le> 90) \<or> (192 \<le> n \<and> n \<le> 222 \<and> n \<noteq> 215)
         then char_of (n + 32) else c)"

definition lower :: "string \<Rightarrow> string" where
  "lower s = map lower_char s"

text \<open>\<open>sep.join(xs)\<close>\<close>

fun join :: "string \<Rightarrow> string list \<Rightarrow> string" where
  "join sep [] = []"
| "join sep [x] = x"
| "join sep (x # y # ys) = x @ sep @ join sep (y # ys)"

text \<open>\<open>s.startswith(p)\<close>\<close>

definition startswith :: "string \<Rightarrow> string \<Rightarrow> bool" where
  "startswith s p = (take (length p) s = p)"

text \<open>\<open>t[:n]\<close> for a Python integer \<open>n\<close>: a negative bound counts from the end.\<close>

definition slice_to :: "'a list \<Rightarrow> int \<Rightarrow> 'a list" where
  "slice_to t n = (if 0 \<le> n then take (nat n) t else take (length t - nat (- n)) t)"

section \<open>utils.py\<close>

subsection \<open>normalize_urls\<close>

text \<open>
  The separator class \<open>[\s,\n]\<close> of \<open>re.split(r"[\s,\n]+", ...)\<close>, and the split itself:
  the text is cut at every maximal run of separators, and, as \<open>re.split\<close> does, a
  separator run at the very start or end leaves an empty string in the result (the empty
  text gives one empty string). A separator that is followed by another one is inside a
  run and cuts nothing; the last separator of a run ends the part before the run.
\<close>

definition is_sep :: "char \<Rightarrow> bool" where
  "is_sep c = (is_space c \<or> c = CHR '','' \<or> c = CHR 0x0A)"

definition starts_with_sep :: "string \<Rightarrow> bool" where
  "starts_with_sep s = (case s of [] \<Rightarrow> False | d # ds \<Rightarrow> is_sep d)"

fun re_split_seps :: "string \<Rightarrow> string list" where
  "re_split_seps [] = [[]]"
| "re_split_seps (c # cs) =
     (if is_sep c
      then (if starts_with_sep cs then re_split_seps cs else [] # re_split_seps cs)
      else (case re_split_seps cs of
              [] \<Rightarrow> [[c]]
            | p # ps \<Rightarrow> (c # p) # ps))"

text \<open>The argument \<open>urls: Any\<close> in the three shapes the docstring and the request schema
  give it: \<open>None\<close>, one string, a list of strings.\<close>

datatype urls_arg = UrlsNone | UrlsStr string | UrlsList "string list"

text \<open>The last loop of \<open>normalize_urls\<close> (and the same loop in
  \<open>pick_language_priority\<close>): \<open>seen\<close> is the set built so far.\<close>

fun dedup :: "string set \<Rightarrow> string list \<Rightarrow> string list" where
  "dedup seen [] = []"
| "dedup seen (u # us) =
     (if u \<in> seen then dedup seen us else u # dedup (insert u seen) us)"

text \<open>The loop over \<open>parts\<close>: empty parts are skipped, the others stripped and kept when
  they start with one of the two schemes.\<close>

fun clean_parts :: "string list \<Rightarrow> string list" where
  "clean_parts [] = []"
| "clean_parts (p # ps) =
     (if p = [] then clean_parts ps
      else (let q = strip p
            in if startswith q ''http://'' \<or> startswith q ''https://''
               then q # clean_parts ps else clean_parts ps))"

definition normalize_urls :: "urls_arg \<Rightarrow> string list" where
  "normalize_urls urls =
     (case urls of
        UrlsNone \<Rightarrow> []
      | UrlsList us \<Rightarrow>
          dedup {} (clean_parts (re_split_seps (strip (join [CHR 0x0A] (filter (\<lambda>u. u \<noteq> []) us)))))
      | UrlsStr s \<Rightarrow>
          dedup {} (clean_parts (re_split_seps (strip s))))"

subsection \<open>pick_language_priority\<close>

fun lang_loop :: "string list \<Rightarrow> string list" where
  "lang_loop [] = []"
| "lang_loop (x # xs) =
     (let s = lower (strip x) in if s = [] then lang_loop xs else s # lang_loop xs)"

definition pick_language_priority :: "string list option \<Rightarrow> string list" where
  "pick_language_priority languages =
     (case languages of
        None \<Rightarrow> [''ko'', ''en'']
      | Some [] \<Rightarrow> [''ko'', ''en'']
      | Some ls \<Rightarrow>
          (let uniq = dedup {} (lang_loop ls)
           in if uniq = [] then [''ko'', ''en''] else uniq))"

subsection \<open>compact_text\<close>

text \<open>\<open>re.sub(r"[ \t]+", " ", t)\<close>: every maximal run of spaces and tabs becomes one
  space.\<close>

definition is_blank :: "char \<Rightarrow> bool" where
  "is_blank c = (c = CHR '' '' \<or> c = CHR 0x09)"

function sub_blanks :: "string \<Rightarrow> string" where
  "sub_blanks [] = []"
| "sub_blanks (c # cs) =
     (if is_blank c then CHR '' '' # sub_blanks (dropWhile is_blank cs)
      else c # sub_blanks cs)"
  by pat_completeness auto
termination
  by (relation "measure length") (auto simp: less_Suc_eq_le length_dropWhile_le)

text \<open>\<open>re.sub(r"\n{3,}", "\n\n", t)\<close>: a maximal run of three or more newlines becomes
  two, a shorter run stays.\<close>

function sub_newlines :: "string \<Rightarrow> string" where
  "sub_newlines [] = []"
| "sub_newlines (c # cs) =
     (if c = CHR 0x0A
      then (let n = Suc (length (takeWhile (\<lambda>d. d = CHR 0x0A) cs))
            in replicate (if 3 \<le> n then 2 else n) (CHR 0x0A)
               @ sub_newlines (dropWhile (\<lambda>d. d = CHR 0x0A) cs))
      else c # sub_newlines cs)"
  by pat_completeness auto
termination
  by (relation "measure length") (auto simp: less_Suc_eq_le length_dropWhile_le)

definition compact_text :: "string \<Rightarrow> int \<Rightarrow> string" where
  "compact_text txt max_chars =
     (if txt = [] then []
      else (let t = sub_newlines (sub_blanks txt)
            in if max_chars \<noteq> 0 \<and> int (length t) > max_chars
               then slice_to t max_chars else t))"

subsection \<open>segments_to_text\<close>

text \<open>
  The values that travel through the pipeline as Python objects decoded from JSON: the
  provider's dataset items, the metadata copied from them, the item results and the
  response document. A Python \<open>dict\<close> is an association list with distinct keys, in
  insertion order. \<open>None\<close> is \<open>JNull\<close>. A float is represented by its numeric value;
  the only thing the code does with a number is to test its truth value.
\<close>

datatype json =
    JNull
  | JBool bool
  | JInt int
  | JFloat rat
  | JStr string
  | JList "json list"
  | JDict "(string \<times> json) list"

type_synonym dict = "(string \<times> json) list"

text \<open>The truth value of an object, as \<open>if x\<close>, \<open>not x\<close> and \<open>x or y\<close> test it.\<close>

fun truthy :: "json \<Rightarrow> bool" where
  "truthy JNull = False"
| "truthy (JBool b) = b"
| "truthy (JInt i) = (i \<noteq> 0)"
| "truthy (JFloat r) = (r \<noteq> 0)"
| "truthy (JStr s) = (s \<noteq> [])"
| "truthy (JList xs) = (xs \<noteq> [])"
| "truthy (JDict d) = (d \<noteq> [])"

text \<open>\<open>a or b\<close>\<close>

definition py_or :: "json \<Rightarrow> json \<Rightarrow> json" where
  "py_or a b = (if truthy a then a else b)"

text \<open>\<open>d.get(k)\<close> and \<open>d.get(k, default)\<close> on a dict.\<close>

definition dget :: "dict \<Rightarrow> string \<Rightarrow> json" where
  "dget d k = (case map_of d k of None \<Rightarrow> JNull | Some v \<Rightarrow> v)"

definition dget_default :: "dict \<Rightarrow> string \<Rightarrow> json \<Rightarrow> json" where
  "dget_default d k dflt = (case map_of d k of None \<Rightarrow> dflt | Some v \<Rightarrow> v)"

text \<open>The name of an object's type, as the interpreter prints it in its messages.\<close>

fun type_name :: "json \<Rightarrow> string" where
  "type_name JNull = ''NoneType''"
| "type_name (JBool b) = ''bool''"
| "type_name (JInt i) = ''int''"
| "type_name (JFloat r) = ''float''"
| "type_name (JStr s) = ''str''"
| "type_name (JList xs) = ''list''"
| "type_name (JDict d) = ''dict''"

text \<open>
  \<open>str(x)\<close>: a string is itself. What \<open>str\<close> prints for any other object (the
  interpreter's \<open>repr\<close> of numbers, lists and dicts) is the parameter \<open>py_repr\<close>.
\<close>

definition py_str :: "(json \<Rightarrow> string) \<Rightarrow> json \<Rightarrow> string" where
  "py_str py_repr x = (case x of JStr s \<Rightarrow> s | _ \<Rightarrow> py_repr x)"

text \<open>The loop of \<open>segments_to_text\<close> over the segments.\<close>

fun segment_texts :: "(json \<Rightarrow> string) \<Rightarrow> json list \<Rightarrow> string list" where
  "segment_texts py_repr [] = []"
| "segment_texts py_repr (seg # segs) =
     (case seg of
        JDict d \<Rightarrow>
          (let txt = py_or (dget d ''text'')
                       (py_or (dget d ''caption'') (py_or (dget d ''value'') (JStr [])))
           in if truthy txt then py_str py_repr txt # segment_texts py_repr segs
              else segment_texts py_repr segs)
      | JStr s \<Rightarrow> s # segment_texts py_repr segs
      | _ \<Rightarrow> segment_texts py_repr segs)"

definition segments_to_text :: "(json \<Rightarrow> string) \<Rightarrow> json \<Rightarrow> int \<Rightarrow> string" where
  "segments_to_text py_repr segments max_chars =
     (case segments of
        JList segs \<Rightarrow>
          (if segs = [] then []
           else (let joined = strip (join [CHR 0x0A] (segment_texts py_repr segs))
                 in if joined = [] then []
                    else compact_text joined
                           (if max_chars \<noteq> 0 then max_chars else int (length joined))))
      | _ \<Rightarrow> [])"

section \<open>The world outside the program\<close>

text \<open>
  Two providers are reached over the network: the transcript actor, through
  \<open>httpx.AsyncClient.post\<close>, and the generation model, through
  \<open>client.models.generate_content\<close>. Each is a function of the state of the world
  \<open>'w\<close> and of the request; it returns the new state of the world and either the message
  of the exception it raised (\<open>Inl\<close>, the \<open>str(e)\<close> that the callers keep) or its
  response. Nothing is assumed about either function.
\<close>

record http_request =
  endpoint :: string
  params :: "(string \<times> string) list"
  payload :: dict
  timeout :: rat

text \<open>\<open>r.status_code\<close>, \<open>r.text\<close> and \<open>r.json()\<close>, which raises when the body is not
  JSON.\<close>

record http_response =
  status_code :: int
  body_text :: string
  body_json :: "string + json"

text \<open>The request of \<open>generate_content(model, contents, config)\<close>. The ceiling on the
  size of the answer is a field of the optional \<open>config\<close>.\<close>

record gen_config =
  max_output_tokens :: "int option"

record gen_request =
  model :: string
  contents :: string
  config :: "gen_config option"

text \<open>
  The module constants read from the environment when the modules are loaded, the
  environment itself (\<open>os.getenv\<close>), the two providers, and the library functions whose
  results the program only passes on: \<open>json.loads\<close>, \<open>json.dumps\<close>, \<open>repr\<close>, and the
  message of the exception that slicing a number, a boolean or a dict raises. The
  fixed texts of the three prompts contain characters beyond code point 255 and are
  parameters too.
\<close>

record 'w env =
  MODEL :: string
  LOCATION :: string
  APIFY_TOKEN :: string
  APIFY_TIMEOUT_SEC :: rat
  MAX_TRANSCRIPT_CHARS :: int
  getenv :: "string \<Rightarrow> string option"
  http_post :: "'w \<Rightarrow> http_request \<Rightarrow> (string + http_response) \<times> 'w"
  generate_content :: "'w \<Rightarrow> gen_request \<Rightarrow> (string + string option) \<times> 'w"
  json_loads :: "string \<Rightarrow> string + json"
  json_dumps :: "json \<Rightarrow> string + string"
  py_repr :: "json \<Rightarrow> string"
  subscript_error :: "json \<Rightarrow> string"
  video_prompt_head :: string
  video_prompt_mid :: string
  profile_prompt_head :: string
  repair_prompt_head :: string

text \<open>
  The state the program threads through its calls: the world, the module global
  \<open>_client\<close> of \<open>gemini_rest.py\<close> (the project and location it was built with, once it
  has been built; building it is taken to succeed), and the generation requests issued
  so far, oldest first.
\<close>

record 'w state =
  world :: 'w
  client :: "(string \<times> string) option"
  gen_calls :: "gen_request list"

section \<open>apify_client.py\<close>

definition actor_endpoint :: "string \<Rightarrow> string" where
  "actor_endpoint actor_id =
     ''https://api.apify.com/v2/acts/''
     @ map (\<lambda>c. if c = CHR ''/'' then CHR ''~'' else c) actor_id
     @ ''/run-sync-get-dataset-items''"

text \<open>The decimal digits of an integer, as an f-string prints it.\<close>

function str_nat :: "nat \<Rightarrow> string" where
  "str_nat n =
     (if n < 10 then [char_of (48 + n)] else str_nat (n div 10) @ [char_of (48 + n mod 10)])"
  by pat_completeness auto
termination
  by (relation "measure id") auto

definition str_int :: "int \<Rightarrow> string" where
  "str_int i = (if i < 0 then CHR ''-'' # str_nat (nat (- i)) else str_nat (nat i))"

text \<open>The dict \<open>out\<close> that \<open>fetch_transcript_and_metadata\<close> returns has the same twelve
  keys on every path, and its \<open>transcript_text\<close> is a string by construction.\<close>

record apify_data =
  title :: json
  description :: json
  channel_name :: json
  published_at :: json
  duration_seconds :: json
  view_count :: json
  like_count :: json
  comment_count :: json
  language :: json
  transcript :: json
  transcript_text :: string
  raw :: dict

text \<open>The choice of \<open>item\<close>: the first element of a non-empty list when it is a dict, or
  the payload itself when it is a dict.\<close>

definition pick_item :: "json \<Rightarrow> dict option" where
  "pick_item data =
     (case data of
        JList (JDict item # rest) \<Rightarrow> Some item
      | JDict item \<Rightarrow> Some item
      | _ \<Rightarrow> None)"

definition standardize :: "dict \<Rightarrow> string \<Rightarrow> apify_data" where
  "standardize item lang =
     (let tr = py_or (dget item ''transcript'')
                 (py_or (dget item ''captions'') (dget item ''segments''));
          tt = py_or (dget item ''transcript_text'')
                 (py_or (dget item ''transcriptText'') (py_or (dget item ''text'') (JStr [])))
      in \<lparr> title = py_or (dget item ''title'') (JStr []),
           description = py_or (dget item ''description'') (JStr []),
           channel_name = py_or (dget item ''channel_name'')
                            (py_or (dget item ''channelName'')
                               (py_or (dget item ''channel'') (JStr []))),
           published_at = py_or (dget item ''published_at'')
                            (py_or (dget item ''publishedAt'') (JStr [])),
           duration_seconds = py_or (dget item ''duration_seconds'')
                                (py_or (dget item ''duration'') JNull),
           view_count = py_or (dget item ''view_count'') (py_or (dget item ''views'') JNull),
           like_count = py_or (dget item ''like_count'') (py_or (dget item ''likes'') JNull),
           comment_count = py_or (dget item ''comment_count'')
                             (py_or (dget item ''commentsCount'') JNull),
           language = py_or (dget item ''language'') (JStr lang),
           transcript = (if truthy tr then tr else JList []),
           transcript_text = (case tt of JStr t \<Rightarrow> t | _ \<Rightarrow> []),
           raw = item \<rparr>)"

definition fetch_transcript_and_metadata ::
  "'w env \<Rightarrow> string \<Rightarrow> string \<Rightarrow> rat \<Rightarrow> string \<Rightarrow> string \<Rightarrow> 'w state
     \<Rightarrow> (string + apify_data) \<times> 'w state" where
  "fetch_transcript_and_metadata env youtube_url lang timeout_sec token actor_id s =
     (if token = [] then (Inl ''APIFY_TOKEN is missing'', s)
      else
        (case http_post env (world s)
                \<lparr> endpoint = actor_endpoint actor_id,
                  params = [(''token'', token), (''format'', ''json'')],
                  payload = [(''youtube_url'', JStr youtube_url), (''language'', JStr lang),
                             (''include_transcript_text'', JBool True)],
                  timeout = timeout_sec \<rparr> of
           (Inl e, w) \<Rightarrow> (Inl e, s\<lparr>world := w\<rparr>)
         | (Inr r, w) \<Rightarrow>
             (if status_code r \<ge> 400
              then (Inl (''Apify HTTP '' @ str_int (status_code r) @ '': '' @ body_text r),
                    s\<lparr>world := w\<rparr>)
              else
                (case body_json r of
                   Inl e \<Rightarrow> (Inl e, s\<lparr>world := w\<rparr>)
                 | Inr data \<Rightarrow>
                     (case pick_item data of
                        None \<Rightarrow>
                          (Inl (''Apify returned unexpected payload: <class '' @ [CHR 0x27]
                                @ type_name data @ [CHR 0x27] @ ''>''), s\<lparr>world := w\<rparr>)
                      | Some item \<Rightarrow> (Inr (standardize item lang), s\<lparr>world := w\<rparr>))))))"

section \<open>gemini_rest.py\<close>

text \<open>\<open>a or b\<close> on two results of \<open>os.getenv\<close>.\<close>

definition env_or :: "string option \<Rightarrow> string option \<Rightarrow> string option" where
  "env_or a b = (case a of None \<Rightarrow> b | Some x \<Rightarrow> if x = [] then b else a)"

definition get_client :: "'w env \<Rightarrow> 'w state \<Rightarrow> (string + string \<times> string) \<times> 'w state" where
  "get_client env s =
     (case client s of
        Some c \<Rightarrow> (Inr c, s)
      | None \<Rightarrow>
          (case env_or (getenv env ''GOOGLE_CLOUD_PROJECT'')
                  (env_or (getenv env ''GCP_PROJECT'') (getenv env ''PROJECT_ID'')) of
             None \<Rightarrow>
               (Inl ''Missing GOOGLE_CLOUD_PROJECT (or GCP_PROJECT/PROJECT_ID) env var'', s)
           | Some p \<Rightarrow>
               (if p = []
                then (Inl ''Missing GOOGLE_CLOUD_PROJECT (or GCP_PROJECT/PROJECT_ID) env var'', s)
                else (Inr (p, LOCATION env), s\<lparr>client := Some (p, LOCATION env)\<rparr>))))"

text \<open>The request that \<open>analyze_with_gemini\<close> hands to \<open>generate_content\<close>: the call
  passes \<open>model\<close> and \<open>contents\<close> and no \<open>config\<close>.\<close>

definition gemini_request :: "'w env \<Rightarrow> string \<Rightarrow> int \<Rightarrow> gen_request" where
  "gemini_request env prompt max_tokens =
     \<lparr> model = MODEL env, contents = prompt, config = None \<rparr>"

definition analyze_with_gemini ::
  "'w env \<Rightarrow> string \<Rightarrow> int \<Rightarrow> 'w state \<Rightarrow> (string + dict) \<times> 'w state" where
  "analyze_with_gemini env prompt max_tokens s =
     (case get_client env s of
        (Inl e, s1) \<Rightarrow> (Inl e, s1)
      | (Inr c, s1) \<Rightarrow>
          (let rq = gemini_request env prompt max_tokens
           in case generate_content env (world s1) rq of
                (Inl e, w) \<Rightarrow> (Inl e, s1\<lparr>world := w, gen_calls := gen_calls s1 @ [rq]\<rparr>)
              | (Inr t, w) \<Rightarrow>
                  (Inr [(''ok'', JBool True), (''model'', JStr (MODEL env)),
                        (''text'', JStr (strip (case t of None \<Rightarrow> [] | Some x \<Rightarrow> x)))],
                   s1\<lparr>world := w, gen_calls := gen_calls s1 @ [rq]\<rparr>)))"

section \<open>prompts.py\<close>

text \<open>\<open>x[:n]\<close> on an object: a string and a list have a slice, anything else raises.\<close>

definition py_slice :: "'w env \<Rightarrow> json \<Rightarrow> nat \<Rightarrow> string + json" where
  "py_slice env x n =
     (case x of
        JStr t \<Rightarrow> Inr (JStr (take n t))
      | JList xs \<Rightarrow> Inr (JList (take n xs))
      | _ \<Rightarrow> Inl (subscript_error env x))"

text \<open>
  Each prompt is an f-string followed by \<open>.strip()\<close>. \<open>video_prompt_head\<close> is the text
  of the first template up to the first \<open>{index}\<close>, \<open>video_prompt_mid\<close> the text from
  there to the second \<open>{index}\<close>; \<open>profile_prompt_head\<close> and \<open>repair_prompt_head\<close> are
  the texts of the other two templates up to their first hole.
\<close>

definition build_video_analysis_prompt ::
  "'w env \<Rightarrow> int \<Rightarrow> json \<Rightarrow> json \<Rightarrow> string \<Rightarrow> string + string" where
  "build_video_analysis_prompt env index ttl descr ttext =
     (case py_slice env (py_or descr (JStr [])) 250 of
        Inl e \<Rightarrow> Inl e
      | Inr d \<Rightarrow>
          Inr (strip (video_prompt_head env @ str_int index @ video_prompt_mid env
                 @ str_int index
                 @ [CHR 0x0A] @ ''- title: '' @ py_str (py_repr env) ttl
                 @ [CHR 0x0A] @ ''- description: '' @ py_str (py_repr env) d
                 @ [CHR 0x0A, CHR 0x0A] @ ''[transcript_text]'' @ [CHR 0x0A] @ ttext
                 @ [CHR 0x0A])))"

definition build_channel_profile_prompt :: "'w env \<Rightarrow> string \<Rightarrow> string" where
  "build_channel_profile_prompt env analyses_json =
     strip (profile_prompt_head env @ analyses_json @ [CHR 0x0A])"

definition build_json_repair_prompt :: "'w env \<Rightarrow> string \<Rightarrow> string \<Rightarrow> string" where
  "build_json_repair_prompt env schema_name raw_text =
     strip (repair_prompt_head env @ schema_name
            @ [CHR 0x0A, CHR 0x0A] @ ''[raw_output]'' @ [CHR 0x0A] @ raw_text @ [CHR 0x0A])"

section \<open>main.py\<close>

subsection \<open>_extract_json_from_text\<close>

text \<open>The code fence, three backquotes.\<close>

definition fence :: string where
  "fence = [CHR 0x60, CHR 0x60, CHR 0x60]"

text \<open>The text before the first occurrence of \<open>pat\<close> in \<open>s\<close>, when there is one.\<close>

fun before_sub :: "string \<Rightarrow> string \<Rightarrow> string option" where
  "before_sub pat [] = (if pat = [] then Some [] else None)"
| "before_sub pat (c # cs) =
     (if startswith (c # cs) pat then Some []
      else map_option ((#) c) (before_sub pat cs))"

text \<open>
  \<open>re.search\<close> with the pattern fence, \<open>label\<close>, \<open>\s*\<close>, \<open>([\s\S]*?)\<close>, fence:
  \<open>fence_at\<close> is the attempt to match at the start of \<open>s\<close> and gives group 1. The
  greedy \<open>\s*\<close> takes all the white space after the label, the lazy group stops at the
  first fence after it. With \<open>ignorecase\<close> the label matches in either case; the label is
  given in lower case. The search returns the match at the leftmost position that has one.
\<close>

definition fence_at :: "bool \<Rightarrow> string \<Rightarrow> string \<Rightarrow> string option" where
  "fence_at ignorecase label s =
     (let n = 3 + length label;
          opening = take n s
      in if (if ignorecase then lower opening else opening) = fence @ label
         then before_sub fence (dropWhile is_space (drop n s))
         else None)"

fun re_search_fence :: "bool \<Rightarrow> string \<Rightarrow> string \<Rightarrow> string option" where
  "re_search_fence ignorecase label [] = fence_at ignorecase label []"
| "re_search_fence ignorecase label (c # cs) =
     (case fence_at ignorecase label (c # cs) of
        Some g \<Rightarrow> Some g
      | None \<Rightarrow> re_search_fence ignorecase label cs)"

text \<open>The result is the parsed object; \<open>JNull\<close> is the \<open>None\<close> the function returns when
  parsing raises (and what \<open>json.loads\<close> itself returns on the text \<open>null\<close>).\<close>

definition extract_json_from_text :: "'w env \<Rightarrow> string \<Rightarrow> json" where
  "extract_json_from_text env txt =
     (if txt = [] then JNull
      else
        (let t = strip txt;
             t' = (if before_sub fence t \<noteq> None
                   then (case re_search_fence True ''json'' t of
                           Some g \<Rightarrow> strip g
                         | None \<Rightarrow>
                             (case re_search_fence False [] t of
                                Some g \<Rightarrow> strip g
                              | None \<Rightarrow> t))
                   else t)
         in case json_loads env t' of Inl e \<Rightarrow> JNull | Inr v \<Rightarrow> v))"

subsection \<open>_process_one\<close>

text \<open>The message of the \<open>AttributeError\<close> for a method an object does not have.\<close>

definition attr_error :: "json \<Rightarrow> string \<Rightarrow> string" where
  "attr_error x a =
     [CHR 0x27] @ type_name x @ [CHR 0x27] @ '' object has no attribute ''
     @ [CHR 0x27] @ a @ [CHR 0x27]"

text \<open>\<open>(d.get("text") or "").strip()\<close>\<close>

definition stripped_text :: "dict \<Rightarrow> string + string" where
  "stripped_text d =
     (case py_or (dget d ''text'') (JStr []) of
        JStr t \<Rightarrow> Inr (strip t)
      | x \<Rightarrow> Inl (attr_error x ''strip''))"

text \<open>
  The loop over \<open>lang_priority\<close>. The pair is \<open>(apify_data, apify_error)\<close>; a fetch that
  returns ends the loop, a fetch that raises leaves its message and goes on.
\<close>

fun fetch_loop ::
  "'w env \<Rightarrow> string \<Rightarrow> string list \<Rightarrow> apify_data option \<times> string option \<Rightarrow> 'w state
     \<Rightarrow> (apify_data option \<times> string option) \<times> 'w state" where
  "fetch_loop env url [] acc s = (acc, s)"
| "fetch_loop env url (lang # langs) acc s =
     (case fetch_transcript_and_metadata env url lang (APIFY_TIMEOUT_SEC env)
             (APIFY_TOKEN env) ''starvibe~youtube-video-transcript'' s of
        (Inr data, s') \<Rightarrow> ((Some data, None), s')
      | (Inl e, s') \<Rightarrow> fetch_loop env url langs (None, Some e) s')"

text \<open>The two shapes of \<open>videoAnalysis\<close>.\<close>

definition analysis_ok :: "string \<Rightarrow> dict" where
  "analysis_ok analysis_text = [(''ok'', JBool True), (''text'', JStr analysis_text)]"

definition analysis_failed :: "string \<Rightarrow> string \<Rightarrow> dict" where
  "analysis_failed e analysis_text =
     [(''ok'', JBool False), (''error'', JStr e), (''text'', JStr (take 1200 analysis_text))]"

text \<open>
  Step 3 of \<open>_process_one\<close>, the \<open>try\<close> block and its handler. Every exception raised in
  the block ends in \<open>analysis_failed\<close> with the value \<open>analysis_text\<close> has at that
  moment: the empty string before the first answer, the first answer until the repaired
  one has been read.
\<close>

definition video_analysis ::
  "'w env \<Rightarrow> int \<Rightarrow> dict \<Rightarrow> string \<Rightarrow> 'w state \<Rightarrow> dict \<times> 'w state" where
  "video_analysis env idx meta ttext s =
     (case py_slice env (py_or (dget_default meta ''description'' (JStr [])) (JStr [])) 300 of
        Inl e \<Rightarrow> (analysis_failed e [], s)
      | Inr descr \<Rightarrow>
     (case build_video_analysis_prompt env idx (dget_default meta ''title'' (JStr [])) descr
             ttext of
        Inl e \<Rightarrow> (analysis_failed e [], s)
      | Inr prompt \<Rightarrow>
     (case analyze_with_gemini env prompt 2048 s of
        (Inl e, s1) \<Rightarrow> (analysis_failed e [], s1)
      | (Inr first, s1) \<Rightarrow>
     (case stripped_text first of
        Inl e \<Rightarrow> (analysis_failed e [], s1)
      | Inr analysis_text \<Rightarrow>
          (if extract_json_from_text env analysis_text \<noteq> JNull
           then (analysis_ok analysis_text, s1)
           else
             (case analyze_with_gemini env
                     (build_json_repair_prompt env ''video_analysis'' (take 6000 analysis_text))
                     2048 s1 of
                (Inl e, s2) \<Rightarrow> (analysis_failed e analysis_text, s2)
              | (Inr second, s2) \<Rightarrow>
                  (case stripped_text second of
                     Inl e \<Rightarrow> (analysis_failed e analysis_text, s2)
                   | Inr analysis_text2 \<Rightarrow>
                       (if extract_json_from_text env analysis_text2 = JNull
                        then (analysis_failed
                                ''Gemini output is not valid JSON even after repair''
                                analysis_text2, s2)
                        else (analysis_ok analysis_text2, s2)))))))))"

text \<open>Step 2 of \<open>_process_one\<close>: the transcript text, compacted, or else the joined
  segments.\<close>

definition transcript_of :: "'w env \<Rightarrow> apify_data \<Rightarrow> string" where
  "transcript_of env apify_data =
     (let t1 = compact_text (transcript_text apify_data) (MAX_TRANSCRIPT_CHARS env)
      in if t1 = []
         then segments_to_text (py_repr env) (transcript apify_data) (MAX_TRANSCRIPT_CHARS env)
         else t1)"

text \<open>The dict \<open>meta\<close> of an analysed item.\<close>

definition meta_of :: "apify_data \<Rightarrow> dict" where
  "meta_of apify_data =
     [(''title'', title apify_data),
      (''description'', description apify_data),
      (''channel'', channel_name apify_data),
      (''published_at'', published_at apify_data),
      (''duration_seconds'', duration_seconds apify_data),
      (''view_count'', view_count apify_data),
      (''like_count'', like_count apify_data),
      (''comment_count'', comment_count apify_data),
      (''language'', language apify_data)]"

text \<open>The three dicts \<open>_process_one\<close> returns.\<close>

definition fetch_failed :: "int \<Rightarrow> string \<Rightarrow> string option \<Rightarrow> dict" where
  "fetch_failed idx url apify_error =
     [(''index'', JInt idx), (''url'', JStr url), (''ok'', JBool False),
      (''stage'', JStr ''apify''),
      (''error'', JStr (case apify_error of
                          None \<Rightarrow> ''Apify failed''
                        | Some e \<Rightarrow> if e = [] then ''Apify failed'' else e))]"

definition no_transcript :: "int \<Rightarrow> string \<Rightarrow> apify_data \<Rightarrow> dict" where
  "no_transcript idx url apify_data =
     [(''index'', JInt idx), (''url'', JStr url), (''ok'', JBool False),
      (''stage'', JStr ''transcript''),
      (''meta'', JDict [(''title'', title apify_data),
                        (''channel'', channel_name apify_data),
                        (''published_at'', published_at apify_data),
                        (''language'', language apify_data)]),
      (''error'', JStr ''NO_TRANSCRIPT_RETURNED_BY_APIFY'')]"

definition analyzed :: "int \<Rightarrow> string \<Rightarrow> dict \<Rightarrow> string \<Rightarrow> dict \<Rightarrow> dict" where
  "analyzed idx url meta ttext analysis =
     [(''index'', JInt idx), (''url'', JStr url), (''ok'', JBool True),
      (''meta'', JDict meta),
      (''transcript_chars'', JInt (int (length ttext))),
      (''videoAnalysis'', JDict analysis)]"

definition process_one ::
  "'w env \<Rightarrow> int \<Rightarrow> string \<Rightarrow> string list \<Rightarrow> 'w state \<Rightarrow> dict \<times> 'w state" where
  "process_one env idx url lang_priority s =
     (case fetch_loop env url lang_priority (None, None) s of
        ((None, apify_error), s1) \<Rightarrow> (fetch_failed idx url apify_error, s1)
      | ((Some apify_data, apify_error), s1) \<Rightarrow>
          (let ttext = transcript_of env apify_data
           in if ttext = [] then (no_transcript idx url apify_data, s1)
              else
                (case video_analysis env idx (meta_of apify_data) ttext s1 of
                   (analysis, s2) \<Rightarrow>
                     (analyzed idx url (meta_of apify_data) ttext analysis, s2))))"

subsection \<open>_build_warnings\<close>

fun build_warnings :: "dict list \<Rightarrow> json list" where
  "build_warnings [] = []"
| "build_warnings (v # vs) =
     (if \<not> truthy (dget v ''ok'')
      then JDict [(''index'', dget v ''index''), (''url'', dget v ''url''),
                  (''stage'', dget v ''stage''), (''error'', dget v ''error'')]
           # build_warnings vs
      else
        (case py_or (dget v ''videoAnalysis'') (JDict []) of
           JDict va \<Rightarrow>
             (if dget va ''ok'' = JBool False
              then JDict [(''index'', dget v ''index''), (''url'', dget v ''url''),
                          (''stage'', JStr ''gemini_video_analysis''),
                          (''error'', dget va ''error'')]
                   # build_warnings vs
              else build_warnings vs)
         | _ \<Rightarrow> build_warnings vs))"

subsection \<open>_analyze_impl\<close>

text \<open>
  What leaves \<open>_analyze_impl\<close> as an exception: the \<open>HTTPException\<close> it raises itself,
  with status and detail, and the \<open>AttributeError\<close> of a method call on an object that
  does not have the method, which no handler in the function catches.
\<close>

datatype exn = HTTPException int string | AttributeError string

definition and_then :: "exn + 'a \<Rightarrow> ('a \<Rightarrow> exn + 'b) \<Rightarrow> exn + 'b" where
  "and_then m f = (case m of Inl e \<Rightarrow> Inl e | Inr x \<Rightarrow> f x)"

text \<open>The object of a call \<open>x.get(...)\<close>: a dict has the method, nothing else has.\<close>

definition get_target :: "json \<Rightarrow> exn + dict" where
  "get_target x =
     (case x of JDict d \<Rightarrow> Inr d | _ \<Rightarrow> Inl (AttributeError (attr_error x ''get'')))"

text \<open>
  The dict \<open>slim\<close> built from a parsed analysis whose \<open>ok\<close> is \<open>True\<close>. The five
  sub-objects are read with \<open>parsed.get(...) or {}\<close> and then asked for their fields
  with \<open>.get\<close>, in the order \<open>hook\<close>, \<open>structure\<close>, \<open>style_tone\<close>,
  \<open>expression_markers\<close>, \<open>retention\<close>.
\<close>

definition slim_dna :: "dict \<Rightarrow> exn + json" where
  "slim_dna parsed =
     and_then (get_target (py_or (dget parsed ''hook'') (JDict []))) (\<lambda>hook.
     and_then (get_target (py_or (dget parsed ''structure'') (JDict []))) (\<lambda>structure.
     and_then (get_target (py_or (dget parsed ''style_tone'') (JDict []))) (\<lambda>style_tone.
     and_then (get_target (py_or (dget parsed ''expression_markers'') (JDict []))) (\<lambda>markers.
     and_then (get_target (py_or (dget parsed ''retention'') (JDict []))) (\<lambda>retention.
       Inr (JDict
         [(''video_index'', dget parsed ''video_index''),
          (''hook'', JDict
             [(''summary'', dget hook ''summary''),
              (''techniques'', py_or (dget hook ''techniques'') (JList [])),
              (''frames'', py_or (dget hook ''frames'') (JList []))]),
          (''structure'', JDict
             [(''template'', dget structure ''template''),
              (''beats'', py_or (dget structure ''beats'') (JList [])),
              (''pacing'', dget structure ''pacing'')]),
          (''style_tone'', JDict
             [(''persona'', dget style_tone ''persona''),
              (''narration_style'', dget style_tone ''narration_style''),
              (''tone_keywords'', py_or (dget style_tone ''tone_keywords'') (JList []))]),
          (''expression_markers'', JDict
             [(''punctuation'', py_or (dget markers ''punctuation'') (JList [])),
              (''catchphrases'', py_or (dget markers ''catchphrases'') (JList [])),
              (''rhythm'', dget markers ''rhythm''),
              (''numbers_style'', dget markers ''numbers_style'')]),
          (''retention'', JDict
             [(''recurring_devices'', py_or (dget retention ''recurring_devices'') (JList [])),
              (''cta'', dget retention ''cta'')]),
          (''quotes'', py_or (dget parsed ''quotes'')
                         (JDict [(''items'', JList [])]))]))))))"

text \<open>The entry appended to \<open>analyses\<close> for a video \<open>v\<close> that passed the two
  \<open>continue\<close> tests, with \<open>va\<close> its \<open>videoAnalysis\<close>.\<close>

definition evidence :: "'w env \<Rightarrow> dict \<Rightarrow> dict \<Rightarrow> exn + json" where
  "evidence env v va =
     (case stripped_text va of
        Inl e \<Rightarrow> Inl (AttributeError e)
      | Inr txt \<Rightarrow>
          and_then
            (case extract_json_from_text env txt of
               JDict parsed \<Rightarrow>
                 (if dget parsed ''ok'' = JBool True then slim_dna parsed
                  else Inr (JDict [(''raw_text'', JStr (take 1200 txt))]))
             | _ \<Rightarrow> Inr (JDict [(''raw_text'', JStr (take 1200 txt))]))
            (\<lambda>slim.
               and_then (get_target (py_or (dget v ''meta'') (JDict []))) (\<lambda>meta.
                 Inr (JDict
                   [(''index'', dget v ''index''),
                    (''url'', py_or (dget v ''url'') (JStr [])),
                    (''meta'', JDict
                       [(''title'', dget_default meta ''title'' (JStr [])),
                        (''channel'', dget_default meta ''channel'' (JStr [])),
                        (''published_at'', dget_default meta ''published_at'' (JStr [])),
                        (''language'', dget_default meta ''language'' (JStr []))]),
                    (''dna'', slim)]))))"

text \<open>The loop \<open>for v in videos\<close> that fills \<open>analyses\<close>; an exception ends it.\<close>

fun collect_analyses :: "'w env \<Rightarrow> dict list \<Rightarrow> exn + json list" where
  "collect_analyses env [] = Inr []"
| "collect_analyses env (v # vs) =
     (if \<not> truthy (dget v ''ok'') then collect_analyses env vs
      else
        (case dget v ''videoAnalysis'' of
           JDict va \<Rightarrow>
             (if dget va ''ok'' = JBool False then collect_analyses env vs
              else and_then (evidence env v va) (\<lambda>a.
                     and_then (collect_analyses env vs) (\<lambda>as. Inr (a # as))))
         | _ \<Rightarrow> collect_analyses env vs))"

text \<open>
  \<open>tasks = [_process_one(i + 1, u, ...) for i, u in enumerate(urls)]\<close>: each task is
  its position in the list and the arguments \<open>idx\<close> and \<open>url\<close> of its call.
\<close>

definition make_tasks :: "string list \<Rightarrow> (nat \<times> int \<times> string) list" where
  "make_tasks us = map (\<lambda>i. (i, int i + 1, us ! i)) [0..<length us]"

text \<open>
  \<open>asyncio.gather\<close>. The tasks run to completion one at a time, in an order that the
  program does not choose: \<open>picks\<close> is the scheduler, whose next number selects one of the
  tasks still pending (the first one when the numbers are used up). The result of a
  task is stored at the task's own position, whenever it completes, and \<open>gather\<close>
  returns the stored results in the order of the positions once no task is pending. The
  semaphore bounds how many tasks are under way at a time; it removes schedules and adds
  none.
\<close>

function run_tasks ::
  "'w env \<Rightarrow> string list \<Rightarrow> (nat \<times> int \<times> string) list \<Rightarrow> nat list \<Rightarrow> dict option list
     \<Rightarrow> 'w state \<Rightarrow> dict option list \<times> 'w state" where
  "run_tasks env lang_priority pending picks results s =
     (if pending = [] then (results, s)
      else
        (let j = (case picks of [] \<Rightarrow> 0 | p # ps \<Rightarrow> p mod length pending)
         in case pending ! j of
              (pos, idx, url) \<Rightarrow>
                (case process_one env idx url lang_priority s of
                   (r, s') \<Rightarrow>
                     run_tasks env lang_priority (take j pending @ drop (Suc j) pending)
                       (tl picks) (results[pos := Some r]) s')))"
  by pat_completeness auto
termination
proof (relation "measure (\<lambda>(env, lang_priority, pending, picks, results, s). length pending)")
  show "wf (measure (\<lambda>(env :: 'w env, lang_priority :: string list,
                        pending :: (nat \<times> int \<times> string) list, picks :: nat list,
                        results :: dict option list, s :: 'w state). length pending))"
    by simp
next
  fix env :: "'w env" and lang_priority :: "string list"
    and pending :: "(nat \<times> int \<times> string) list" and picks :: "nat list"
    and results :: "dict option list" and s :: "'w state" and j x pos y idx url xa r s'
  assume ne: "pending \<noteq> []"
    and j: "j = (case picks of [] \<Rightarrow> 0 | p # ps \<Rightarrow> p mod length pending)"
  have "j < length pending"
    using ne by (simp add: j split: list.split)
  then show "((env, lang_priority, take j pending @ drop (Suc j) pending, tl picks,
               results[pos := Some r], s'),
              (env, lang_priority, pending, picks, results, s))
             \<in> measure (\<lambda>(env, lang_priority, pending, picks, results, s). length pending)"
    by simp
qed

definition gather ::
  "'w env \<Rightarrow> string list \<Rightarrow> string list \<Rightarrow> nat list \<Rightarrow> 'w state \<Rightarrow> dict list \<times> 'w state" where
  "gather env lang_priority us picks s =
     (case run_tasks env lang_priority (make_tasks us) picks (replicate (length us) None) s of
        (results, s') \<Rightarrow> (List.map_filter (\<lambda>r. r) results, s'))"

text \<open>The request after schema validation.\<close>

record AnalyzeReq =
  urls :: "string list"
  languages :: "string list"
  concurrency :: int
  make_channel_profile :: bool

text \<open>The returned document.\<close>

definition response :: "dict list \<Rightarrow> json \<Rightarrow> dict" where
  "response videos channel_profile =
     [(''ok'', JBool True),
      (''count'', JInt (int (length videos))),
      (''videos'', JList (map JDict videos)),
      (''channelProfile'', channel_profile),
      (''warnings'', JList (build_warnings videos))]"

definition profile_error :: "string \<Rightarrow> json" where
  "profile_error e = JDict [(''ok'', JBool False), (''error'', JStr e)]"

text \<open>The block under \<open>if req.make_channel_profile\<close>, given the gathered videos.\<close>

definition channel_profile_of ::
  "'w env \<Rightarrow> dict list \<Rightarrow> 'w state \<Rightarrow> (exn + json) \<times> 'w state" where
  "channel_profile_of env videos s =
     (case collect_analyses env videos of
        Inl e \<Rightarrow> (Inl e, s)
      | Inr analyses \<Rightarrow>
          (if analyses \<noteq> []
           then
             (case json_dumps env (JList analyses) of
                Inl e \<Rightarrow> (Inr (profile_error e), s)
              | Inr analyses_json \<Rightarrow>
                  (case analyze_with_gemini env
                          (build_channel_profile_prompt env analyses_json) 2048 s of
                     (Inl e, s') \<Rightarrow> (Inr (profile_error e), s')
                   | (Inr channel_profile, s') \<Rightarrow> (Inr (JDict channel_profile), s')))
           else
             (Inr (profile_error ''No valid per-video analyses to build channel profile''),
              s)))"

definition analyze_impl ::
  "'w env \<Rightarrow> AnalyzeReq \<Rightarrow> nat list \<Rightarrow> 'w state \<Rightarrow> (exn + dict) \<times> 'w state" where
  "analyze_impl env req picks s =
     (let us = normalize_urls (UrlsList (urls req))
      in if us = [] then (Inl (HTTPException 400 ''urls is empty''), s)
         else
           (let lang_priority = pick_language_priority (Some (languages req))
            in case gather env lang_priority us picks s of
                 (videos, s1) \<Rightarrow>
                   (if make_channel_profile req
                    then
                      (case channel_profile_of env videos s1 of
                         (Inl e, s2) \<Rightarrow> (Inl e, s2)
                       | (Inr channel_profile, s2) \<Rightarrow>
                           (Inr (response videos channel_profile), s2))
                    else (Inr (response videos JNull), s1))))"

section \<open>Notions used to state the properties\<close>

text \<open>
  The outcomes of the fetches that the loop over \<open>lang_priority\<close> makes, in order: each
  fetch starts in the state the one before it left, and the list ends with the first
  fetch that returns, as the loop does. Every fetch has raised when every outcome is an
  \<open>Inl\<close>; the last outcome is then the one of the last language.
\<close>

fun fetch_attempts :: "'w env \<Rightarrow> string \<Rightarrow> string list \<Rightarrow> 'w state \<Rightarrow> (string + apify_data) list" where
  "fetch_attempts env url [] s = []"
| "fetch_attempts env url (lang # langs) s =
     (case fetch_transcript_and_metadata env url lang (APIFY_TIMEOUT_SEC env)
             (APIFY_TOKEN env) ''starvibe~youtube-video-transcript'' s of
        (Inr data, s') \<Rightarrow> [Inr data]
      | (Inl e, s') \<Rightarrow> Inl e # fetch_attempts env url langs s')"

text \<open>A stored result that carries the index and the URL of its position.\<close>

definition slot_ok :: "string list \<Rightarrow> nat \<Rightarrow> dict option \<Rightarrow> bool" where
  "slot_ok us k r =
     (case r of
        None \<Rightarrow> False
      | Some d \<Rightarrow> map_of d ''index'' = Some (JInt (int k + 1))
                  \<and> map_of d ''url'' = Some (JStr (us ! k)))"

text \<open>What every element of a result of \<open>normalize_urls\<close> is: free of separators, and
  starting with one of the two schemes.\<close>

definition url_token :: "string \<Rightarrow> bool" where
  "url_token p = (list_all (\<lambda>c. \<not> is_sep c) p
      \<and> (startswith p ''http://'' \<or> startswith p ''https://''))"

section \<open>Example worlds\<close>

text \<open>
  Worlds on which the theorems below are instantiated. The state of the world is the
  number of answers the generation model has given so far.

  In \<open>world_timeout\<close> every request to the transcript actor ends in a timeout, an
  exception of \<open>httpx\<close> whose message is the empty string. The generation model answers
  with prose the first time it is asked, with the JSON object \<open>{}\<close> the second time,
  and with prose again from then on; \<open>json.loads\<close> accepts \<open>{}\<close> and \<open>crash_text\<close>,
  the text \<open>{"ok": true, "hook": "x"}\<close>.
\<close>

definition crash_text :: string where
  "crash_text = ''{'' @ [CHR 0x22] @ ''ok'' @ [CHR 0x22] @ '': true, '' @ [CHR 0x22] @ ''hook''
     @ [CHR 0x22] @ '': '' @ [CHR 0x22] @ ''x'' @ [CHR 0x22] @ ''}''"

definition world_timeout :: "nat env" where
  "world_timeout =
     \<lparr> MODEL = ''gemini-2.5-flash'',
       LOCATION = ''us-central1'',
       APIFY_TOKEN = ''token'',
       APIFY_TIMEOUT_SEC = 120,
       MAX_TRANSCRIPT_CHARS = 18000,
       getenv = (\<lambda>k. if k = ''GOOGLE_CLOUD_PROJECT'' then Some ''project'' else None),
       http_post = (\<lambda>w rq. (Inl [], w)),
       generate_content =
         (\<lambda>w rq. (Inr (Some (if w = 0 then ''Sorry, I cannot.''
                               else if w = 1 then ''{}'' else ''Still no JSON.'')),
                   Suc w)),
       json_loads =
         (\<lambda>t. if t = ''{}'' then Inr (JDict [])
              else if t = crash_text
              then Inr (JDict [(''ok'', JBool True), (''hook'', JStr ''x'')])
              else Inl ''Expecting value''),
       json_dumps = (\<lambda>j. Inr ''[...]''),
       py_repr = (\<lambda>j. ''...''),
       subscript_error = (\<lambda>j. ''object is not subscriptable''),
       video_prompt_head = ''video '',
       video_prompt_mid = '' index '',
       profile_prompt_head = ''profile '',
       repair_prompt_head = ''repair '' \<rparr>"

text \<open>In \<open>world_transcript\<close> the transcript actor answers every request with one dataset
  item that has a title and a transcript text.\<close>

definition world_transcript :: "nat env" where
  "world_transcript =
     world_timeout
       \<lparr> http_post :=
           (\<lambda>w rq. (Inr \<lparr> status_code = 200, body_text = ''[...]'',
                           body_json = Inr (JList [JDict [(''title'', JStr ''T''),
                                                          (''transcript_text'', JStr ''hello'')]]) \<rparr>,
                     w)) \<rparr>"

text \<open>In \<open>world_crash\<close> the generation model moreover answers every prompt with
  \<open>crash_text\<close>.\<close>

definition world_crash :: "nat env" where
  "world_crash =
     world_transcript \<lparr> generate_content := (\<lambda>w rq. (Inr (Some crash_text), Suc w)) \<rparr>"

text \<open>In \<open>world_no_token\<close> the token of the transcript actor is not configured.\<close>

definition world_no_token :: "nat env" where
  "world_no_token = world_timeout \<lparr> APIFY_TOKEN := [] \<rparr>"

text \<open>The record that \<open>world_transcript\<close> returns for a fetch in the language \<open>ko\<close>, and
  the prompt of the first analysis of item 1 built from it.\<close>

definition example_data :: apify_data where
  "example_data =
     standardize [(''title'', JStr ''T''), (''transcript_text'', JStr ''hello'')] ''ko''"


text \<open>The state before the first request: no client built, no generation request
  issued, and the generation model has given \<open>n\<close> answers.\<close>

definition start :: "nat \<Rightarrow> nat state" where
  "start n = \<lparr> world = n, client = None, gen_calls = [] \<rparr>"

definition request :: "string list \<Rightarrow> bool \<Rightarrow> AnalyzeReq" where
  "request us profile =
     \<lparr> urls = us, languages = [''ko'', ''en''], concurrency = 4,
       make_channel_profile = profile \<rparr>"

section \<open>Properties of utils.py\<close>

text \<open>
  C7. \<open>pick_language_priority\<close> applied to the empty list, to \<open>None\<close> and to the list
  \<open>["", " "]\<close> of an empty and a blank string returns, each time, the default list
  \<open>["ko", "en"]\<close>.
\<close>

theorem pick_language_priority_default:
  "pick_language_priority (Some []) = [''ko'', ''en'']
   \<and> pick_language_priority None = [''ko'', ''en'']
   \<and> pick_language_priority (Some ['''', '' '']) = [''ko'', ''en'']"
  by (simp add: pick_language_priority_def strip_def is_space_def lower_def)

text \<open>
  C8. Compacting the text \<open>"Hello   world\n\n\n\nEnd"\<close> with \<open>max_chars = 100\<close> gives
  \<open>"Hello world\n\nEnd"\<close>: the run of three spaces has become one space and the run of
  four newlines has become two.
\<close>

theorem compact_text_hello_world:
  "compact_text ''Hello   world\<newline>\<newline>\<newline>\<newline>End'' 100 = ''Hello world\<newline>\<newline>End''"
  by (simp add: compact_text_def is_blank_def numeral_2_eq_2)

subsection \<open>normalize_urls is idempotent\<close>

lemma re_split_seps_nonempty: "re_split_seps s \<noteq> []"
  by (induction s) (auto split: list.splits)

lemma re_split_seps_no_sep:
  "p \<in> set (re_split_seps s) \<Longrightarrow> list_all (\<lambda>c. \<not> is_sep c) p"
proof (induction s arbitrary: p)
  case Nil
  then show ?case by simp
next
  case (Cons c cs)
  show ?case
  proof (cases "is_sep c")
    case True
    with Cons show ?thesis by (auto split: if_splits)
  next
    case False
    obtain q qs where q: "re_split_seps cs = q # qs"
      using re_split_seps_nonempty [of cs] by (cases "re_split_seps cs") auto
    with Cons False show ?thesis by auto
  qed
qed

lemma strip_no_space: "list_all (\<lambda>c. \<not> is_space c) p \<Longrightarrow> strip p = p"
proof -
  assume a: "list_all (\<lambda>c. \<not> is_space c) p"
  have 1: "dropWhile is_space p = p" using a by (cases p) auto
  have "list_all (\<lambda>c. \<not> is_space c) (rev p)" using a by (simp add: list_all_iff)
  then have 2: "dropWhile is_space (rev p) = rev p" by (cases "rev p") auto
  show ?thesis by (simp add: strip_def 1 2)
qed

lemma no_sep_no_space: "list_all (\<lambda>c. \<not> is_sep c) p \<Longrightarrow> list_all (\<lambda>c. \<not> is_space c) p"
  by (simp add: list_all_iff is_sep_def)

lemma url_token_nonempty: "url_token p \<Longrightarrow> p \<noteq> []"
  by (auto simp: url_token_def startswith_def)

lemma clean_parts_tokens:
  "list_all (\<lambda>p. list_all (\<lambda>c. \<not> is_sep c) p) ps \<Longrightarrow> list_all url_token (clean_parts ps)"
  by (induction ps) (auto simp: url_token_def Let_def strip_no_space no_sep_no_space)

lemma clean_parts_id: "list_all url_token ps \<Longrightarrow> clean_parts ps = ps"
  by (induction ps)
     (auto simp: Let_def url_token_nonempty strip_no_space no_sep_no_space url_token_def)

lemma dedup_subset: "set (dedup seen xs) \<subseteq> set xs - seen"
  by (induction xs arbitrary: seen) auto

lemma dedup_distinct: "distinct (dedup seen xs)"
proof (induction xs arbitrary: seen)
  case Nil
  show ?case by simp
next
  case (Cons u us)
  show ?case using Cons [of seen] Cons [of "insert u seen"] dedup_subset [of "insert u seen" us]
    by auto
qed

lemma dedup_id: "distinct xs \<Longrightarrow> set xs \<inter> seen = {} \<Longrightarrow> dedup seen xs = xs"
  by (induction xs arbitrary: seen) auto

lemma dedup_all: "list_all P xs \<Longrightarrow> list_all P (dedup seen xs)"
  using dedup_subset [of seen xs] by (auto simp: list_all_iff)

lemma split_token_end: "list_all (\<lambda>c. \<not> is_sep c) t \<Longrightarrow> re_split_seps t = [t]"
  by (induction t) auto

lemma split_token_nl:
  "list_all (\<lambda>c. \<not> is_sep c) t \<Longrightarrow> u \<noteq> [] \<Longrightarrow> \<not> is_sep (hd u)
     \<Longrightarrow> re_split_seps (t @ CHR 0x0A # u) = t # re_split_seps u"
proof (induction t)
  case Nil
  then show ?case by (cases u) (simp_all add: is_sep_def starts_with_sep_def)
next
  case (Cons c t)
  then show ?case by simp
qed

lemma join_hd:
  "ts \<noteq> [] \<Longrightarrow> list_all url_token ts \<Longrightarrow> join [CHR 0x0A] ts \<noteq> [] \<and> hd (join [CHR 0x0A] ts) = hd (hd ts)"
  by (induction "[CHR 0x0A]" ts rule: join.induct) (auto dest: url_token_nonempty)

lemma split_join:
  "ts \<noteq> [] \<Longrightarrow> list_all url_token ts \<Longrightarrow> re_split_seps (join [CHR 0x0A] ts) = ts"
proof (induction "[CHR 0x0A]" ts rule: join.induct)
  case 1
  then show ?case by simp
next
  case (2 x)
  then show ?case by (simp add: split_token_end url_token_def)
next
  case (3 x y ys)
  have j: "join [CHR 0x0A] (y # ys) \<noteq> [] \<and> hd (join [CHR 0x0A] (y # ys)) = hd y"
    using join_hd [of "y # ys"] 3 by simp
  have "y \<noteq> []" using 3 by (auto dest: url_token_nonempty)
  then have "\<not> is_sep (hd y)" using 3 by (cases y) (auto simp: url_token_def)
  with 3 j show ?case by (simp add: split_token_nl url_token_def)
qed

lemma join_last:
  "ts \<noteq> [] \<Longrightarrow> list_all url_token ts \<Longrightarrow> last (join [CHR 0x0A] ts) = last (last ts)"
proof (induction "[CHR 0x0A]" ts rule: join.induct)
  case 1
  then show ?case by simp
next
  case (2 x)
  then show ?case by simp
next
  case (3 x y ys)
  have "join [CHR 0x0A] (y # ys) \<noteq> []" using join_hd [of "y # ys"] 3 by simp
  with 3 show ?case by simp
qed

lemma strip_ends: "s \<noteq> [] \<Longrightarrow> \<not> is_space (hd s) \<Longrightarrow> \<not> is_space (last s) \<Longrightarrow> strip s = s"
proof -
  assume a: "s \<noteq> []" "\<not> is_space (hd s)" "\<not> is_space (last s)"
  have 1: "dropWhile is_space s = s" using a by (cases s) auto
  obtain ys y where s: "s = ys @ [y]" using a(1) by (cases s rule: rev_cases) auto
  have 2: "dropWhile is_space (rev s) = rev s" using a(3) by (simp add: s)
  show ?thesis by (simp add: strip_def 1 2)
qed

lemma strip_join: "list_all url_token ts \<Longrightarrow> strip (join [CHR 0x0A] ts) = join [CHR 0x0A] ts"
proof (cases "ts = []")
  case True
  then show ?thesis by (simp add: strip_def)
next
  case False
  assume a: "list_all url_token ts"
  have h: "url_token (hd ts)" "url_token (last ts)" using a False by (auto simp: list_all_iff)
  have "\<not> is_sep (hd (hd ts))" using h(1) url_token_nonempty [OF h(1)]
    by (cases "hd ts") (auto simp: url_token_def)
  moreover have "\<not> is_sep (last (last ts))" using h(2) url_token_nonempty [OF h(2)]
    by (auto simp: url_token_def list_all_iff)
  ultimately show ?thesis using join_hd [OF False a] join_last [OF False a]
    by (intro strip_ends) (auto simp: is_sep_def)
qed

lemma split_parts: "list_all (\<lambda>p. list_all (\<lambda>c. \<not> is_sep c) p) (re_split_seps s)"
  by (subst list_all_iff) (blast intro: re_split_seps_no_sep)

lemma normalize_urls_tokens: "list_all url_token (normalize_urls x) \<and> distinct (normalize_urls x)"
proof -
  have "list_all url_token (dedup {} (clean_parts (re_split_seps s)))" for s
    by (intro dedup_all clean_parts_tokens split_parts)
  then show ?thesis
    by (cases x) (simp_all add: normalize_urls_def dedup_distinct)
qed

lemma normalize_urls_fixed:
  assumes "list_all url_token ts" "distinct ts"
  shows "normalize_urls (UrlsList ts) = ts"
proof -
  have f: "filter (\<lambda>u. u \<noteq> []) ts = ts"
    using assms(1) by (auto simp: list_all_iff filter_id_conv dest: url_token_nonempty)
  show ?thesis
  proof (cases "ts = []")
    case True
    then show ?thesis by (simp add: normalize_urls_def strip_def)
  next
    case False
    then show ?thesis using assms
      by (simp add: normalize_urls_def f strip_join split_join clean_parts_id dedup_id)
  qed
qed

text \<open>
  C6. \<open>normalize_urls\<close> is idempotent: for every input, whether \<open>None\<close>, one string or
  a list of strings, normalizing the list that \<open>normalize_urls\<close> returned gives that
  list again.
\<close>

theorem normalize_urls_idempotent:
  "normalize_urls (UrlsList (normalize_urls x)) = normalize_urls x"
  using normalize_urls_tokens [of x] by (simp add: normalize_urls_fixed)

section \<open>Properties of the pipeline\<close>

declare run_tasks.simps [simp del]

declare str_nat.simps [simp del]

subsection \<open>The gathered videos\<close>

lemma process_one_index_url:
  "map_of (fst (process_one env idx url langs s)) ''index'' = Some (JInt idx)
   \<and> map_of (fst (process_one env idx url langs s)) ''url'' = Some (JStr url)"
  by (simp add: process_one_def fetch_failed_def no_transcript_def analyzed_def Let_def
           split: prod.split option.split)

lemma run_tasks_empty: "run_tasks env langs [] picks results s = (results, s)"
  by (simp add: run_tasks.simps)

lemma run_tasks_step:
  assumes "pending \<noteq> []"
    and "j = (case picks of [] \<Rightarrow> 0 | p # ps \<Rightarrow> p mod length pending)"
    and "pending ! j = (pos, idx, url)"
  shows "run_tasks env langs pending picks results s =
           run_tasks env langs (take j pending @ drop (Suc j) pending) (tl picks)
             (results[pos := Some (fst (process_one env idx url langs s))])
             (snd (process_one env idx url langs s))"
  using assms by (subst run_tasks.simps) (simp add: Let_def split: prod.split)

lemma run_tasks_slots:
  assumes "length results = length us"
    and "distinct (map fst pending)"
    and "\<forall>t \<in> set pending. fst t < length us \<and> fst (snd t) = int (fst t) + 1
                               \<and> snd (snd t) = us ! fst t"
    and "\<forall>k < length us. k \<in> fst ` set pending \<or> slot_ok us k (results ! k)"
  shows "length (fst (run_tasks env langs pending picks results s)) = length us
         \<and> (\<forall>k < length us. slot_ok us k (fst (run_tasks env langs pending picks results s) ! k))"
  using assms
proof (induction n \<equiv> "length pending" arbitrary: pending picks results s)
  case 0
  then show ?case by (simp add: run_tasks_empty)
next
  case (Suc n)
  then have ne: "pending \<noteq> []" by auto
  define j where "j = (case picks of [] \<Rightarrow> 0 | p # ps \<Rightarrow> p mod length pending)"
  have j: "j < length pending" using ne by (simp add: j_def split: list.split)
  obtain pos idx url where t: "pending ! j = (pos, idx, url)" by (cases "pending ! j") auto
  define pending' where "pending' = take j pending @ drop (Suc j) pending"
  define r where "r = fst (process_one env idx url langs s)"
  define s' where "s' = snd (process_one env idx url langs s)"
  have step: "run_tasks env langs pending picks results s
                = run_tasks env langs pending' (tl picks) (results[pos := Some r]) s'"
    unfolding pending'_def r_def s'_def by (rule run_tasks_step [OF ne j_def t])
  have split: "pending = take j pending @ (pos, idx, url) # drop (Suc j) pending"
    using id_take_nth_drop [OF j] t by simp
  have mem: "(pos, idx, url) \<in> set pending" using j t nth_mem by fastforce
  have pos: "pos < length us" "idx = int pos + 1" "url = us ! pos"
    using Suc.prems(3) mem by auto
  have d: "distinct (map fst (take j pending @ (pos, idx, url) # drop (Suc j) pending))"
    using Suc.prems(2) split by simp
  have d': "distinct (map fst pending')" and notin: "pos \<notin> fst ` set pending'"
    using d by (auto simp: pending'_def)
  have sub: "set pending = insert (pos, idx, url) (set pending')"
    by (subst split) (auto simp: pending'_def)
  have len: "n = length pending'"
    using Suc.hyps(2) j by (simp add: pending'_def)
  have a1: "length (results[pos := Some r]) = length us" using Suc.prems(1) by simp
  have a3: "\<forall>t \<in> set pending'. fst t < length us \<and> fst (snd t) = int (fst t) + 1
                               \<and> snd (snd t) = us ! fst t"
    using Suc.prems(3) sub by auto
  have rok: "slot_ok us pos (Some r)"
    using process_one_index_url [of env idx url langs s] pos by (simp add: slot_ok_def r_def)
  have a4: "\<forall>k < length us. k \<in> fst ` set pending' \<or> slot_ok us k (results[pos := Some r] ! k)"
  proof (intro allI impI)
    fix k assume k: "k < length us"
    show "k \<in> fst ` set pending' \<or> slot_ok us k (results[pos := Some r] ! k)"
    proof (cases "k = pos")
      case True
      then show ?thesis using rok Suc.prems(1) pos(1) by simp
    next
      case False
      then show ?thesis using Suc.prems(4) k sub by auto
    qed
  qed
  show ?case
    unfolding step by (rule Suc.hyps(1) [OF len a1 d' a3 a4])
qed

lemma map_filter_all_some:
  "\<forall>r \<in> set rs. r \<noteq> None \<Longrightarrow> List.map_filter (\<lambda>r. r) rs = map the rs"
  by (induction rs) (auto simp: map_filter_simps)

lemma make_tasks_props:
  "distinct (map fst (make_tasks us))"
  "\<forall>t \<in> set (make_tasks us). fst t < length us \<and> fst (snd t) = int (fst t) + 1
                               \<and> snd (snd t) = us ! fst t"
  "\<forall>k < length us. k \<in> fst ` set (make_tasks us)"
  by (auto simp: make_tasks_def comp_def image_iff)

lemma gather_videos:
  "length (fst (gather env langs us picks s)) = length us
   \<and> (\<forall>k < length us.
         map_of (fst (gather env langs us picks s) ! k) ''index'' = Some (JInt (int k + 1))
         \<and> map_of (fst (gather env langs us picks s) ! k) ''url'' = Some (JStr (us ! k)))"
proof -
  define rs where "rs = fst (run_tasks env langs (make_tasks us) picks (replicate (length us) None) s)"
  have inv: "length rs = length us \<and> (\<forall>k < length us. slot_ok us k (rs ! k))"
    unfolding rs_def
    by (rule run_tasks_slots) (use make_tasks_props [of us] in auto)
  have some: "\<forall>r \<in> set rs. r \<noteq> None"
  proof
    fix r assume "r \<in> set rs"
    then obtain i where i: "i < length rs" "rs ! i = r" by (auto simp: in_set_conv_nth)
    then have "slot_ok us i r" using inv by auto
    then show "r \<noteq> None" by (cases r) (simp_all add: slot_ok_def)
  qed
  have g: "fst (gather env langs us picks s) = map the rs"
    using map_filter_all_some [OF some]
    by (simp add: gather_def rs_def case_prod_beta)
  show ?thesis
    unfolding g using inv by (auto simp: slot_ok_def split: option.splits)
qed

lemma analyze_with_gemini_result:
  assumes "analyze_with_gemini env p n s = (Inr d, s1)"
  shows "\<exists>t. d = [(''ok'', JBool True), (''model'', JStr (MODEL env)), (''text'', JStr t)]"
  using assms
  by (auto simp: analyze_with_gemini_def Let_def split: prod.splits sum.splits)

lemma channel_profile_of_shape:
  assumes "channel_profile_of env videos s = (Inr cp, s')"
  shows "(\<exists>t. cp = JDict [(''ok'', JBool True), (''model'', JStr (MODEL env)), (''text'', JStr t)])
         \<or> (\<exists>e. cp = profile_error e)"
proof (cases "collect_analyses env videos")
  case (Inl e)
  then show ?thesis using assms by (simp add: channel_profile_of_def)
next
  case (Inr analyses)
  show ?thesis
  proof (cases "analyses = []")
    case True
    then show ?thesis using assms Inr by (auto simp: channel_profile_of_def)
  next
    case False
    show ?thesis
    proof (cases "json_dumps env (JList analyses)")
      case (Inl e)
      then show ?thesis using assms Inr False by (auto simp: channel_profile_of_def)
    next
      case dumped: (Inr analyses_json)
      obtain r s2 where g: "analyze_with_gemini env
          (build_channel_profile_prompt env analyses_json) 2048 s = (r, s2)"
        by (cases "analyze_with_gemini env (build_channel_profile_prompt env analyses_json) 2048 s")
      show ?thesis
      proof (cases r)
        case (Inl e)
        then show ?thesis using assms Inr False dumped g by (auto simp: channel_profile_of_def)
      next
        case res: (Inr d)
        then have "cp = JDict d" using assms Inr False dumped g
          by (auto simp: channel_profile_of_def)
        then show ?thesis using analyze_with_gemini_result [of env _ 2048 s d s2] g res by auto
      qed
    qed
  qed
qed

lemma analyze_impl_returns:
  assumes "analyze_impl env req picks s = (Inr doc, s')"
  shows "\<exists>cp. doc = response (fst (gather env (pick_language_priority (Some (languages req)))
                                   (normalize_urls (UrlsList (urls req))) picks s)) cp
              \<and> (if make_channel_profile req
                  then (\<exists>t. cp = JDict [(''ok'', JBool True), (''model'', JStr (MODEL env)),
                                        (''text'', JStr t)])
                       \<or> (\<exists>e. cp = profile_error e)
                  else cp = JNull)"
proof -
  define us where "us = normalize_urls (UrlsList (urls req))"
  define langs where "langs = pick_language_priority (Some (languages req))"
  obtain videos s1 where g: "gather env langs us picks s = (videos, s1)"
    by (cases "gather env langs us picks s")
  have ne: "us \<noteq> []" using assms by (auto simp: analyze_impl_def us_def Let_def)
  show ?thesis
  proof (cases "make_channel_profile req")
    case False
    then have "doc = response videos JNull"
      using assms ne g by (simp add: analyze_impl_def us_def [symmetric] langs_def [symmetric])
    then show ?thesis using False g by (auto simp: us_def langs_def)
  next
    case True
    obtain r s2 where c: "channel_profile_of env videos s1 = (r, s2)"
      by (cases "channel_profile_of env videos s1")
    show ?thesis
    proof (cases r)
      case (Inl e)
      then show ?thesis using assms ne g True c
        by (simp add: analyze_impl_def us_def [symmetric] langs_def [symmetric])
    next
      case (Inr cp)
      then have "doc = response videos cp"
        using assms ne g True c
        by (simp add: analyze_impl_def us_def [symmetric] langs_def [symmetric])
      then show ?thesis
        using True g channel_profile_of_shape [of env videos s1 cp s2] c Inr
        by (auto simp: us_def langs_def)
    qed
  qed
qed

text \<open>
  C1. For a request whose normalized URL list \<open>us\<close> is not empty, whatever the two
  providers answer and in whatever order the item pipelines complete (\<open>picks\<close>), the
  gathered list \<open>videos\<close> has one entry for each element of \<open>us\<close>, and the entry at
  position \<open>k\<close> (counted from 0) has \<open>index\<close> \<open>k + 1\<close> and \<open>url\<close> the \<open>k\<close>-th
  normalized URL. A document that \<open>_analyze_impl\<close> returns carries exactly this list under
  \<open>videos\<close>, and its length under \<open>count\<close>.
\<close>

theorem videos_follow_normalized_urls:
  assumes "us = normalize_urls (UrlsList (urls req))"
    and "us \<noteq> []"
    and "gather env (pick_language_priority (Some (languages req))) us picks s = (videos, s1)"
  shows "length videos = length us
         \<and> (\<forall>k < length us.
               map_of (videos ! k) ''index'' = Some (JInt (int k + 1))
               \<and> map_of (videos ! k) ''url'' = Some (JStr (us ! k)))
         \<and> (\<forall>doc s2. analyze_impl env req picks s = (Inr doc, s2) \<longrightarrow>
               map_of doc ''videos'' = Some (JList (map JDict videos))
               \<and> map_of doc ''count'' = Some (JInt (int (length us))))"
proof -
  have v: "videos = fst (gather env (pick_language_priority (Some (languages req))) us picks s)"
    using assms(3) by simp
  have a: "length videos = length us
           \<and> (\<forall>k < length us.
                 map_of (videos ! k) ''index'' = Some (JInt (int k + 1))
                 \<and> map_of (videos ! k) ''url'' = Some (JStr (us ! k)))"
    unfolding v by (rule gather_videos)
  have b: "map_of doc ''videos'' = Some (JList (map JDict videos))
           \<and> map_of doc ''count'' = Some (JInt (int (length us)))"
    if "analyze_impl env req picks s = (Inr doc, s2)" for doc s2
    using analyze_impl_returns [OF that] a v assms(1) by (auto simp: response_def)
  show ?thesis using a b by blast
qed

text \<open>
  An instance: the request names the URL A twice and then B, every fetch times out, and
  the pipeline of B completes before the one of A.
\<close>

theorem videos_follow_normalized_urls_witness:
  "normalize_urls (UrlsList (urls (request [''https://youtu.be/A'', ''https://youtu.be/A'',
       ''https://youtu.be/B''] True))) = [''https://youtu.be/A'', ''https://youtu.be/B'']
   \<and> length (fst (gather world_timeout [''ko'', ''en'']
                 [''https://youtu.be/A'', ''https://youtu.be/B''] [1] (start 0))) = 2
   \<and> map_of (fst (gather world_timeout [''ko'', ''en'']
                 [''https://youtu.be/A'', ''https://youtu.be/B''] [1] (start 0)) ! 1) ''index''
       = Some (JInt 2)
   \<and> map_of (fst (gather world_timeout [''ko'', ''en'']
                 [''https://youtu.be/A'', ''https://youtu.be/B''] [1] (start 0)) ! 1) ''url''
       = Some (JStr ''https://youtu.be/B'')
   \<and> map_of (projr (fst (analyze_impl world_timeout
                 (request [''https://youtu.be/A'', ''https://youtu.be/A'', ''https://youtu.be/B'']
                    True) [1] (start 0)))) ''count''
       = Some (JInt 2)"
proof -
  define req where "req = request [''https://youtu.be/A'', ''https://youtu.be/A'',
                                   ''https://youtu.be/B''] True"
  define us where "us = [''https://youtu.be/A'', ''https://youtu.be/B'']"
  define videos where "videos = fst (gather world_timeout [''ko'', ''en''] us [1] (start 0))"
  have h1: "us = normalize_urls (UrlsList (urls req))"
    unfolding us_def req_def by code_simp
  have h2: "us \<noteq> []" by (simp add: us_def)
  have lp: "pick_language_priority (Some (languages req)) = [''ko'', ''en'']"
    unfolding req_def by code_simp
  have h3: "gather world_timeout (pick_language_priority (Some (languages req))) us [1] (start 0)
              = (videos, snd (gather world_timeout [''ko'', ''en''] us [1] (start 0)))"
    by (simp add: lp videos_def)
  have h4: "\<not> isl (fst (analyze_impl world_timeout req [1] (start 0)))"
    unfolding req_def by code_simp
  obtain r s2 where rs: "analyze_impl world_timeout req [1] (start 0) = (r, s2)"
    by (cases "analyze_impl world_timeout req [1] (start 0)")
  obtain doc where "r = Inr doc" using h4 rs by (cases r) simp_all
  then have d: "analyze_impl world_timeout req [1] (start 0) = (Inr doc, s2)"
    using rs by simp
  from videos_follow_normalized_urls [OF h1 h2 h3]
  have a: "length videos = length us"
    and b: "\<forall>k<length us. map_of (videos ! k) ''index'' = Some (JInt (int k + 1))
                           \<and> map_of (videos ! k) ''url'' = Some (JStr (us ! k))"
    and c: "map_of doc ''count'' = Some (JInt (int (length us)))"
    using d by blast+
  have b1: "map_of (videos ! 1) ''index'' = Some (JInt 2)
            \<and> map_of (videos ! 1) ''url'' = Some (JStr ''https://youtu.be/B'')"
    using b [rule_format, of 1] by (simp add: us_def)
  show ?thesis
    using h1 a b1 c d unfolding us_def videos_def req_def by simp
qed

subsection \<open>The channelProfile field\<close>

text \<open>
  C2, as stated, fails: with \<open>make_channel_profile\<close> false the returned document still
  has the key \<open>channelProfile\<close>; its value is \<open>None\<close>. The field is never left out.
\<close>

theorem channel_profile_absent_counterexample:
  "\<not> make_channel_profile (request [''https://youtu.be/A''] False)
   \<and> fst (analyze_impl world_timeout (request [''https://youtu.be/A''] False) [] (start 0))
       = Inr [(''ok'', JBool True),
              (''count'', JInt 1),
              (''videos'', JList [JDict [(''index'', JInt 1), (''url'', JStr ''https://youtu.be/A''),
                                         (''ok'', JBool False), (''stage'', JStr ''apify''),
                                         (''error'', JStr ''Apify failed'')]]),
              (''channelProfile'', JNull),
              (''warnings'', JList [JDict [(''index'', JInt 1),
                                           (''url'', JStr ''https://youtu.be/A''),
                                           (''stage'', JStr ''apify''),
                                           (''error'', JStr ''Apify failed'')]])]"
  by code_simp

text \<open>
  C2, amended. In every document that \<open>_analyze_impl\<close> returns the key
  \<open>channelProfile\<close> is present. Its value is \<open>None\<close> if and only if
  \<open>make_channel_profile\<close> is false. When the flag is true the value is either the dict
  \<open>{ok: True, model, text}\<close> that the generation call returned or a dict
  \<open>{ok: False, error}\<close>.
\<close>

theorem channel_profile_null_iff_disabled:
  assumes "analyze_impl env req picks s = (Inr doc, s')"
  shows "\<exists>cp. map_of doc ''channelProfile'' = Some cp
              \<and> (cp = JNull \<longleftrightarrow> \<not> make_channel_profile req)
              \<and> (make_channel_profile req \<longrightarrow>
                    (\<exists>t. cp = JDict [(''ok'', JBool True), (''model'', JStr (MODEL env)),
                                      (''text'', JStr t)])
                    \<or> (\<exists>e. cp = JDict [(''ok'', JBool False), (''error'', JStr e)]))"
  using analyze_impl_returns [OF assms]
  by (auto simp: response_def profile_error_def split: if_splits)

text \<open>
  An instance with the flag set, where no item was analysed, and one with the flag
  cleared.
\<close>

theorem channel_profile_null_iff_disabled_witness:
  "map_of (projr (fst (analyze_impl world_timeout (request [''https://youtu.be/A''] True) []
                         (start 0)))) ''channelProfile''
     = Some (JDict [(''ok'', JBool False),
                    (''error'', JStr ''No valid per-video analyses to build channel profile'')])
   \<and> map_of (projr (fst (analyze_impl world_timeout (request [''https://youtu.be/A''] False) []
                           (start 0)))) ''channelProfile''
     = Some JNull"
proof -
  define on where "on = analyze_impl world_timeout (request [''https://youtu.be/A''] True) [] (start 0)"
  define off where "off = analyze_impl world_timeout (request [''https://youtu.be/A''] False) [] (start 0)"
  have r1: "\<not> isl (fst on)" unfolding on_def by code_simp
  have r2: "\<not> isl (fst off)" unfolding off_def by code_simp
  have d1: "analyze_impl world_timeout (request [''https://youtu.be/A''] True) [] (start 0)
              = (Inr (projr (fst on)), snd on)"
    using r1 by (cases "fst on") (simp_all add: on_def [symmetric] prod_eq_iff)
  have d2: "analyze_impl world_timeout (request [''https://youtu.be/A''] False) [] (start 0)
              = (Inr (projr (fst off)), snd off)"
    using r2 by (cases "fst off") (simp_all add: off_def [symmetric] prod_eq_iff)
  have p1: "map_of (projr (fst on)) ''channelProfile''
              = Some (JDict [(''ok'', JBool False),
                    (''error'', JStr ''No valid per-video analyses to build channel profile'')])"
    unfolding on_def by code_simp
  from channel_profile_null_iff_disabled [OF d2]
  have p2: "map_of (projr (fst off)) ''channelProfile'' = Some JNull"
    by (auto simp: request_def)
  from channel_profile_null_iff_disabled [OF d1] p1 p2
  show ?thesis by (simp add: on_def off_def)
qed

subsection \<open>The ceiling on the output of a generation call\<close>

lemma analyze_with_gemini_tokens_unused:
  "analyze_with_gemini env p n s = analyze_with_gemini env p m s"
  unfolding analyze_with_gemini_def gemini_request_def by (rule refl)

lemma analyze_with_gemini_new_calls:
  "list_all (\<lambda>rq. config rq = None)
     (drop (length (gen_calls s)) (gen_calls (snd (analyze_with_gemini env p n s))))"
  by (auto simp: analyze_with_gemini_def get_client_def Let_def gemini_request_def
           split: prod.splits sum.splits option.splits)

text \<open>
  C3 says that the bound \<open>max_output_tokens\<close> given by the caller is applied to the
  request to the generation provider. The code does not do so: \<open>analyze_with_gemini\<close>
  behaves the same for every value of the bound, each request it issues has no
  \<open>config\<close>, and so the request for the prompt \<open>prompt\<close> with the bound 2048 carries
  the model and the prompt and nothing else.
\<close>

theorem max_output_tokens_not_sent:
  "analyze_with_gemini env prompt n s = analyze_with_gemini env prompt 0 s
   \<and> list_all (\<lambda>rq. config rq = None)
        (drop (length (gen_calls s)) (gen_calls (snd (analyze_with_gemini env prompt n s))))
   \<and> gen_calls (snd (analyze_with_gemini world_timeout ''prompt'' 2048 (start 0)))
       = [\<lparr> model = ''gemini-2.5-flash'', contents = ''prompt'', config = None \<rparr>]"
proof -
  have "gen_calls (snd (analyze_with_gemini world_timeout ''prompt'' 2048 (start 0)))
       = [\<lparr> model = ''gemini-2.5-flash'', contents = ''prompt'', config = None \<rparr>]"
    by code_simp
  then show ?thesis
    using analyze_with_gemini_tokens_unused [of env prompt n s 0]
      analyze_with_gemini_new_calls [of s env prompt n]
    by simp
qed

subsection \<open>A fetch that fails for every language\<close>

lemma fetch_loop_all_failed:
  assumes "list_all isl (fetch_attempts env url langs s)" "langs \<noteq> []"
  shows "fst (fetch_loop env url langs acc s)
           = (None, Some (projl (last (fetch_attempts env url langs s))))"
  using assms
proof (induction langs arbitrary: acc s)
  case Nil
  then show ?case by simp
next
  case (Cons lang langs)
  obtain r s' where f: "fetch_transcript_and_metadata env url lang (APIFY_TIMEOUT_SEC env)
      (APIFY_TOKEN env) ''starvibe~youtube-video-transcript'' s = (r, s')"
    by (cases "fetch_transcript_and_metadata env url lang (APIFY_TIMEOUT_SEC env)
      (APIFY_TOKEN env) ''starvibe~youtube-video-transcript'' s")
  obtain e where e: "r = Inl e" using Cons.prems(1) f by (cases r) auto
  show ?case
  proof (cases "langs = []")
    case True
    then show ?thesis using f e by simp
  next
    case False
    have a: "list_all isl (fetch_attempts env url langs s')" using Cons.prems(1) f e by simp
    have ne: "fetch_attempts env url langs s' \<noteq> []"
      using False by (cases langs) (auto split: prod.splits sum.splits)
    show ?thesis using Cons.IH [OF a False, of "(None, Some e)"] f e ne by simp
  qed
qed

text \<open>
  C4, as stated, fails: when every fetch times out with an empty message, the message of
  the last language is the empty string, and the \<open>error\<close> of the item is
  \<open>Apify failed\<close>.
\<close>

theorem fetch_error_empty_message_counterexample:
  "fetch_attempts world_timeout ''https://youtu.be/A'' [''ko'', ''en''] (start 0)
     = [Inl [], Inl []]
   \<and> fst (process_one world_timeout 1 ''https://youtu.be/A'' [''ko'', ''en''] (start 0))
       = [(''index'', JInt 1), (''url'', JStr ''https://youtu.be/A''), (''ok'', JBool False),
          (''stage'', JStr ''apify''), (''error'', JStr ''Apify failed'')]"
  by code_simp

text \<open>
  C4, amended. When the fetch raises for every language of a non-empty priority list, the
  item result is exactly \<open>{index, url, ok: False, stage: "apify", error}\<close>, where
  \<open>error\<close> is the message of the last language's fetch if that message is not empty and
  \<open>Apify failed\<close> if it is; the result has no \<open>videoAnalysis\<close> field.
\<close>

theorem fetch_failure_reports_last_error:
  assumes "lang_priority \<noteq> []"
    and "list_all isl (fetch_attempts env url lang_priority s)"
  shows "fst (process_one env idx url lang_priority s) =
           [(''index'', JInt idx), (''url'', JStr url), (''ok'', JBool False),
            (''stage'', JStr ''apify''),
            (''error'', JStr (if projl (last (fetch_attempts env url lang_priority s)) = []
                              then ''Apify failed''
                              else projl (last (fetch_attempts env url lang_priority s))))]
         \<and> map_of (fst (process_one env idx url lang_priority s)) ''videoAnalysis'' = None"
proof -
  obtain st where "fetch_loop env url lang_priority (None, None) s
      = ((None, Some (projl (last (fetch_attempts env url lang_priority s)))), st)"
    using fetch_loop_all_failed [OF assms(2) assms(1), of "(None, None)"]
    by (cases "fetch_loop env url lang_priority (None, None) s") auto
  then show ?thesis by (simp add: process_one_def fetch_failed_def)
qed

text \<open>
  An instance: without a token every fetch raises \<open>APIFY_TOKEN is missing\<close>.
\<close>

theorem fetch_failure_reports_last_error_witness:
  "list_all isl (fetch_attempts world_no_token ''https://youtu.be/A'' [''ko'', ''en''] (start 0))
   \<and> fst (process_one world_no_token 1 ''https://youtu.be/A'' [''ko'', ''en''] (start 0))
       = [(''index'', JInt 1), (''url'', JStr ''https://youtu.be/A''), (''ok'', JBool False),
          (''stage'', JStr ''apify''), (''error'', JStr ''APIFY_TOKEN is missing'')]
   \<and> map_of (fst (process_one world_no_token 1 ''https://youtu.be/A'' [''ko'', ''en''] (start 0)))
         ''videoAnalysis'' = None"
proof -
  have h1: "[''ko'', ''en''] \<noteq> ([] :: string list)" by simp
  have h2: "list_all isl (fetch_attempts world_no_token ''https://youtu.be/A'' [''ko'', ''en'']
                            (start 0))"
    by code_simp
  have l: "projl (last (fetch_attempts world_no_token ''https://youtu.be/A'' [''ko'', ''en'']
                          (start 0))) = ''APIFY_TOKEN is missing''"
    by code_simp
  from fetch_failure_reports_last_error [OF h1 h2, of 1] h2 show ?thesis
    unfolding l by simp
qed

subsection \<open>The repair call\<close>









subsection \<open>The top-level ok\<close>

text \<open>
  A document that \<open>_analyze_impl\<close> returns has \<open>ok\<close> true.
\<close>

lemma analyze_impl_ok:
  assumes "analyze_impl env req picks s = (Inr doc, s')"
  shows "map_of doc ''ok'' = Some (JBool True)"
  using analyze_impl_returns [OF assms] by (auto simp: response_def)

text \<open>
  C9 says that every request that passes validation gets a document whose \<open>ok\<close> is
  true, whatever fails in the item pipelines and in the aggregation. The code does not
  always return a document: when an analysis parses to an object whose \<open>ok\<close> is true
  and whose \<open>hook\<close> is a string, the loop that builds the evidence records calls
  \<open>.get\<close> on the string, and the \<open>AttributeError\<close> leaves \<open>_analyze_impl\<close>. The
  item itself had been analysed with success.
\<close>

theorem uncaught_attribute_error:
  "fst (analyze_impl world_crash (request [''https://youtu.be/A''] True) [] (start 0))
     = Inl (AttributeError ([CHR 0x27] @ ''str'' @ [CHR 0x27] @ '' object has no attribute ''
                            @ [CHR 0x27] @ ''get'' @ [CHR 0x27]))
   \<and> fst (gather world_crash [''ko'', ''en''] [''https://youtu.be/A''] [] (start 0))
       = [analyzed 1 ''https://youtu.be/A'' (meta_of example_data) ''hello''
            (analysis_ok crash_text)]"
  by code_simp

subsection \<open>A request without usable URLs\<close>

text \<open>
  C10. A request whose \<open>urls\<close> normalize to the empty list is rejected with the HTTP
  error 400 \<open>urls is empty\<close>: no document is returned, no provider is called and the
  state is unchanged.
\<close>

theorem empty_urls_rejected:
  assumes "normalize_urls (UrlsList (urls req)) = []"
  shows "analyze_impl env req picks s = (Inl (HTTPException 400 ''urls is empty''), s)"
  using assms by (simp add: analyze_impl_def)

text \<open>
  An instance: two entries, neither of which starts with \<open>http://\<close> or
  \<open>https://\<close>; normalization drops both without an error.
\<close>

theorem empty_urls_rejected_witness:
  "urls (request [''ftp://example.com/v'', ''youtu.be/abc''] True) \<noteq> []
   \<and> normalize_urls (UrlsList (urls (request [''ftp://example.com/v'', ''youtu.be/abc''] True)))
       = []
   \<and> analyze_impl world_timeout (request [''ftp://example.com/v'', ''youtu.be/abc''] True) []
         (start 0)
       = (Inl (HTTPException 400 ''urls is empty''), start 0)"
proof -
  have h: "normalize_urls (UrlsList (urls (request [''ftp://example.com/v'', ''youtu.be/abc'']
                                             True))) = []"
    by code_simp
  from empty_urls_rejected [OF h, of world_timeout "[]" "start 0"] h show ?thesis
    by (simp add: request_def)
qed

end
